theory Spec2Isabelle
  imports Complex_Main
begin

section \<open>The transactional document store of database.ts\<close>

text \<open>
  The store is one SQLite database held in the variable \<open>_db\<close>. It is modelled as a record
  of its eight tables, each table a list of rows in insertion order. Every operation of
  database.ts takes the store and returns its result together with the store it leaves.

  Conventions of the model:
  \<^item> a JavaScript number and a REAL column are an exact \<open>real\<close>: rounding of IEEE doubles
    is not modelled;
  \<^item> a nullable column, and an optional field of types.ts, is an \<open>option\<close>;
  \<^item> a TEXT column that holds a serialised array of items or a serialised address is a
    \<open>json_cell\<close>: \<open>Parsed v\<close> stands for a text that \<open>JSON.parse\<close> accepts and reads as the
    value \<open>v\<close> of the type that types.ts declares; \<open>ParsedNull\<close> is the text \<open>null\<close>, which
    \<open>JSON.parse\<close> accepts too and which \<open>JSON.stringify(val || null)\<close> writes for a
    missing value; \<open>Unparsable s\<close> is a text \<open>s\<close> that \<open>JSON.parse\<close> rejects (the empty text
    among them). No operation of database.ts writes a text that parses to anything else,
    and such a text has no representation;
  \<^item> in a partial record the keys \<open>items\<close> and \<open>amountPaid\<close> are absent, present with the
    value \<open>undefined\<close>, or present with a value; every other key is absent or holds a
    value, its column not being nullable in the rows of the model;
  \<^item> \<open>Date.now()\<close> and \<open>new Date().toISOString()\<close> are arguments of the operations that
    read the clock;
  \<^item> an exception is a value of type \<open>error\<close>; \<open>ROLLBACK\<close> returns the store as it was at
    \<open>BEGIN TRANSACTION\<close>;
  \<^item> the copy written to IndexedDB by \<open>saveDbToIdb\<close> is not part of the model, and neither
    is the file image that \<open>exportDb\<close> and \<open>importDb\<close> exchange with sql.js.
\<close>

subsection \<open>Data model: types.ts and the schema of createTables\<close>

datatype 'a json_cell = Parsed 'a | ParsedNull | Unparsable string

record invoice_item =
  productId :: "string option"
  customItemName :: "string option"
  hsnCode :: "string option"
  quantity :: real
  rate :: real
  taxRate :: real

record product =
  p_id :: string
  p_name :: string
  p_sku :: "string option"
  p_hsnCode :: "string option"
  p_category :: "string option"
  p_salePrice :: real
  p_purchasePrice :: real
  p_taxRate :: "real option"
  p_stock :: "real option"
  p_reorderPoint :: "real option"
  p_isService :: bool

record address =
  line1 :: string
  line2 :: string
  district :: string
  state :: string
  country :: string
  pincode :: string

record customer =
  c_id :: string
  c_name :: string
  c_email :: "string option"
  c_phone :: "string option"
  c_billingAddress :: "address json_cell"
  c_shippingAddress :: "address json_cell"
  c_gstin :: "string option"

record supplier =
  s_id :: string
  s_name :: string
  s_email :: "string option"
  s_phone :: "string option"
  s_address :: "address json_cell"
  s_gstin :: "string option"

datatype sales_status = SalesPaid | SalesUnpaid | SalesOverdue | SalesPartiallyPaid

datatype quotation_status = Sent | Accepted | Invoiced | Expired

datatype purchase_status = PurchasePaid | PurchaseUnpaid | PurchasePartiallyPaid

record sales_invoice =
  si_id :: string
  si_invoiceNumber :: string
  si_customerId :: string
  si_invoiceDate :: string
  si_dueDate :: string
  si_items :: "invoice_item list json_cell"
  si_status :: sales_status
  si_amountPaid :: "real option"

record quotation =
  q_id :: string
  q_quotationNumber :: string
  q_customerId :: string
  q_quoteDate :: string
  q_expiryDate :: string
  q_items :: "invoice_item list json_cell"
  q_status :: quotation_status

record purchase_invoice =
  pi_id :: string
  pi_invoiceNumber :: string
  pi_supplierId :: string
  pi_purchaseDate :: string
  pi_items :: "invoice_item list json_cell"
  pi_status :: purchase_status
  pi_amountPaid :: "real option"

record stock_adjustment =
  sa_id :: string
  sa_productId :: string
  sa_date :: string
  sa_quantityChange :: real
  sa_reason :: string

text \<open>
  A value that \<open>JSON.parse\<close> yields, for the \<open>value\<close> column of the settings table. A
  number literal too large for a double, such as \<open>1e999\<close>, is read as \<open>Infinity\<close>, and
  \<open>-0\<close> is read as negative zero; \<open>NaN\<close> is never read.
\<close>

datatype json_number = Num real | MinusZero | Infinity | MinusInfinity

datatype json =
  JNull
  | JBool bool
  | JNum json_number
  | JStr string
  | JArr "json list"
  | JObj "(string \<times> json) list"

text \<open>
  The \<open>value\<close> column of settings: SQL NULL (\<open>None\<close>), a text that \<open>JSON.parse\<close> accepts
  and reads as a value, or a text that it rejects.
\<close>

datatype settings_text = JsonText json | NotJson string

type_synonym settings_value = "settings_text option"

record db =
  settings :: "(string \<times> settings_value) list"
  products :: "product list"
  customers :: "customer list"
  suppliers :: "supplier list"
  sales_invoices :: "sales_invoice list"
  quotations :: "quotation list"
  purchase_invoices :: "purchase_invoice list"
  stock_adjustments :: "stock_adjustment list"

subsection \<open>Errors, transactions and the SQL statements used\<close>

text \<open>
  \<open>ProductNotFound\<close> and \<open>StockCannotBeNegative\<close> are the two \<open>Error\<close>s thrown by
  adjustStock (the second is the condition the specification calls InsufficientStock; it
  carries the current stock and the adjustment of its message). \<open>SqlUniqueConstraint\<close> is
  an INSERT whose primary key is already in the table, \<open>SqlSyntaxError\<close> an UPDATE whose
  SET clause is empty, \<open>TypeError\<close> a call of \<open>forEach\<close> on a value that is not an array.
\<close>

datatype error =
  ProductNotFound string
  | StockCannotBeNegative "real option" real
  | SqlUniqueConstraint string
  | SqlSyntaxError
  | TypeError

text \<open>
  \<open>BEGIN TRANSACTION; try { body; COMMIT } catch { ROLLBACK; throw }\<close>: a body that
  throws leaves the store as it was.
\<close>

definition transaction :: "db \<Rightarrow> (db \<Rightarrow> error + 'a \<times> db) \<Rightarrow> (error + 'a) \<times> db" where
  "transaction d body = (case body d of Inl e \<Rightarrow> (Inl e, d) | Inr (v, d') \<Rightarrow> (Inr v, d'))"

text \<open>The decimal text of a number, as a template literal renders \<open>Date.now()\<close>.\<close>

definition digit_char :: "nat \<Rightarrow> char" where
  "digit_char k = ''0123456789'' ! k"

function decimal :: "nat \<Rightarrow> string" where
  "decimal n = (if n < 10 then [digit_char n] else decimal (n div 10) @ [digit_char (n mod 10)])"
  by pat_completeness auto
termination
  by (relation "measure id") auto

declare decimal.simps [simp del]

text \<open>
  A prepared statement \<open>SELECT ... FROM t WHERE col = ?\<close>: the column it compares and
  the value bound to its parameter. \<open>prepare\<close> leaves the parameter unbound, which SQLite
  reads as NULL, and \<open>col = NULL\<close> is true of no row. In sql.js the parameter is bound by
  \<open>bind\<close> (and by \<open>run\<close>, \<open>get\<close> and \<open>getAsObject\<close> when they are given values);
  \<open>step\<close> is declared without parameters, so what a caller passes to it is not read.
  \<open>stmt_step\<close> gives the row the statement is on after one \<open>step\<close>: \<open>step\<close> returns
  \<open>true\<close> when there is one.
\<close>

record 'r statement =
  column :: "'r \<Rightarrow> string"
  param :: "string option"

definition prepare :: "('r \<Rightarrow> string) \<Rightarrow> 'r statement" where
  "prepare col = \<lparr>column = col, param = None\<rparr>"

definition stmt_bind :: "string \<Rightarrow> 'r statement \<Rightarrow> 'r statement" where
  "stmt_bind v stmt = stmt\<lparr>param := Some v\<rparr>"

definition stmt_step :: "string list \<Rightarrow> 'r statement \<Rightarrow> 'r list \<Rightarrow> 'r option" where
  "stmt_step args stmt rows =
     (case param stmt of None \<Rightarrow> None | Some v \<Rightarrow> find (\<lambda>r. column stmt r = v) rows)"

text \<open>
  getById: \<open>prepare("SELECT * FROM t WHERE id = ?")\<close>, \<open>bind([id])\<close>, one \<open>step()\<close>. (The
  normalisation of \<open>isService\<close> to a boolean and parseJsonFields are the reading of the
  typed row.)
\<close>

definition getById :: "('r \<Rightarrow> string) \<Rightarrow> 'r list \<Rightarrow> string \<Rightarrow> 'r option" where
  "getById idOf rows i = stmt_step [] (stmt_bind i (prepare idOf)) rows"

text \<open>\<open>INSERT INTO t VALUES (...)\<close> into a table whose \<open>id\<close> is the primary key.\<close>

definition insert_row :: "('r \<Rightarrow> string) \<Rightarrow> 'r \<Rightarrow> 'r list \<Rightarrow> error + 'r list" where
  "insert_row idOf r rows =
     (if idOf r \<in> set (map idOf rows) then Inl (SqlUniqueConstraint (idOf r))
      else Inr (rows @ [r]))"

text \<open>
  \<open>UPDATE products SET stock = stock + ? WHERE id = ?\<close> and its counterpart with \<open>-\<close>.
  In SQL, NULL plus a number is NULL.
\<close>

definition sql_add_stock :: "real \<Rightarrow> string \<Rightarrow> product list \<Rightarrow> product list" where
  "sql_add_stock q pid ps =
     map (\<lambda>p. if p_id p = pid then p\<lparr>p_stock := map_option (\<lambda>s. s + q) (p_stock p)\<rparr> else p) ps"

definition sql_sub_stock :: "real \<Rightarrow> string \<Rightarrow> product list \<Rightarrow> product list" where
  "sql_sub_stock q pid ps =
     map (\<lambda>p. if p_id p = pid then p\<lparr>p_stock := map_option (\<lambda>s. s - q) (p_stock p)\<rparr> else p) ps"

text \<open>The number JavaScript reads in a stock that may be \<open>null\<close>: \<open>null + q\<close> is \<open>q\<close>.\<close>

definition js_num :: "real option \<Rightarrow> real" where
  "js_num v = (case v of None \<Rightarrow> 0 | Some x \<Rightarrow> x)"

subsection \<open>productStore.adjustStock\<close>

definition adjustStock ::
  "db \<Rightarrow> nat \<Rightarrow> string \<Rightarrow> string \<Rightarrow> real \<Rightarrow> string \<Rightarrow> (error + product option) \<times> db" where
  "adjustStock d now isoDate pid qty reason =
     transaction d (\<lambda>d.
       case getById p_id (products d) pid of
         None \<Rightarrow> Inl (ProductNotFound pid)
       | Some p \<Rightarrow>
           let currentStock = p_stock p in
           if qty < 0 \<and> js_num currentStock + qty < 0
           then Inl (StockCannotBeNegative currentStock qty)
           else
             (case insert_row sa_id
                     \<lparr>sa_id = ''sa-'' @ decimal now, sa_productId = pid, sa_date = isoDate,
                      sa_quantityChange = qty, sa_reason = reason\<rparr>
                     (stock_adjustments d) of
                Inl e \<Rightarrow> Inl e
              | Inr sas \<Rightarrow>
                  let d' = d\<lparr>stock_adjustments := sas,
                             products := sql_add_stock qty pid (products d)\<rparr>
                  in Inr (getById p_id (products d') pid, d')))"

subsection \<open>Invoice items and product stock\<close>

text \<open>
  \<open>items.forEach(item => { if (item.productId) UPDATE products SET stock = stock + ? ... })\<close>
  and its counterpart with \<open>-\<close>. The test \<open>if (item.productId)\<close> is JavaScript truthiness:
  an absent productId and the empty string both skip the item.
\<close>

definition forEach_add_stock :: "invoice_item list \<Rightarrow> product list \<Rightarrow> product list" where
  "forEach_add_stock items ps =
     fold (\<lambda>item ps. case productId item of
                        None \<Rightarrow> ps
                      | Some pid \<Rightarrow> if pid \<noteq> [] then sql_add_stock (quantity item) pid ps else ps)
          items ps"

definition forEach_sub_stock :: "invoice_item list \<Rightarrow> product list \<Rightarrow> product list" where
  "forEach_sub_stock items ps =
     fold (\<lambda>item ps. case productId item of
                        None \<Rightarrow> ps
                      | Some pid \<Rightarrow> if pid \<noteq> [] then sql_sub_stock (quantity item) pid ps else ps)
          items ps"

text \<open>\<open>x || 0\<close> for an optional number.\<close>

definition or_zero :: "real option \<Rightarrow> real" where
  "or_zero v = (case v of None \<Rightarrow> 0 | Some x \<Rightarrow> x)"

subsection \<open>createStore: the generic record store\<close>

text \<open>
  A store made by createStore works on one table. \<open>Object.entries(data)\<close> of a partial
  record is a list of pairs of a column name and the effect of \<open>column = ?\<close> on a row (the
  value bound to the \<open>?\<close> is inside the effect). \<open>UPDATE t SET  WHERE id = ?\<close>, with no
  assignment, is not an SQL statement: \<open>prepare\<close> throws.
\<close>

type_synonym 'r fieldEntries = "(string \<times> ('r \<Rightarrow> 'r)) list"

definition sql_update_set :: "('r \<Rightarrow> string) \<Rightarrow> 'r fieldEntries \<Rightarrow> string \<Rightarrow> 'r list \<Rightarrow> error + 'r list" where
  "sql_update_set idOf fieldEntries i rows =
     (if length fieldEntries = 0 then Inl SqlSyntaxError
      else Inr (map (\<lambda>r. if idOf r = i then fold snd fieldEntries r else r) rows))"

definition createStore_update ::
  "('r \<Rightarrow> string) \<Rightarrow> 'r list \<Rightarrow> string \<Rightarrow> 'r fieldEntries \<Rightarrow> (error + 'r option) \<times> 'r list" where
  "createStore_update idOf rows i fieldEntries =
     (if length fieldEntries = 0 then (Inr (getById idOf rows i), rows)
      else (case sql_update_set idOf fieldEntries i rows of
              Inl e \<Rightarrow> (Inl e, rows)
            | Inr rows' \<Rightarrow> (Inr (getById idOf rows' i), rows')))"

definition createStore_delete :: "('r \<Rightarrow> string) \<Rightarrow> 'r list \<Rightarrow> string \<Rightarrow> bool \<times> 'r list" where
  "createStore_delete idOf rows i = (True, filter (\<lambda>r. idOf r \<noteq> i) rows)"

subsection \<open>salesInvoiceStore\<close>

record sales_invoice_data =
  sd_invoiceNumber :: string
  sd_customerId :: string
  sd_invoiceDate :: string
  sd_dueDate :: string
  sd_items :: "invoice_item list"
  sd_status :: sales_status
  sd_amountPaid :: "real option"

text \<open>
  A key of a partial record whose column may hold NULL: the key is absent, present with
  the value \<open>undefined\<close>, or present with a value.
\<close>

datatype 'a field = Absent | Undefined | Given 'a

text \<open>
  \<open>Partial<SalesInvoiceData>\<close>. For the other keys \<open>None\<close> is a key that is absent.
\<close>

record sales_invoice_partial =
  u_invoiceNumber :: "string option"
  u_customerId :: "string option"
  u_invoiceDate :: "string option"
  u_dueDate :: "string option"
  u_items :: "invoice_item list field"
  u_status :: "sales_status option"
  u_amountPaid :: "real field"

text \<open>
  \<open>Object.entries(data)\<close> with the value each entry binds: \<open>JSON.stringify(val || null)\<close>
  for \<open>items\<close> (an array is truthy, \<open>undefined\<close> gives the text \<open>null\<close>), and
  \<open>val === undefined ? null : val\<close> for the other keys.
\<close>

definition sales_fieldEntries :: "sales_invoice_partial \<Rightarrow> sales_invoice fieldEntries" where
  "sales_fieldEntries data =
     (case u_invoiceNumber data of None \<Rightarrow> []
      | Some v \<Rightarrow> [(''invoiceNumber'', \<lambda>r. r\<lparr>si_invoiceNumber := v\<rparr>)])
   @ (case u_customerId data of None \<Rightarrow> []
      | Some v \<Rightarrow> [(''customerId'', \<lambda>r. r\<lparr>si_customerId := v\<rparr>)])
   @ (case u_invoiceDate data of None \<Rightarrow> []
      | Some v \<Rightarrow> [(''invoiceDate'', \<lambda>r. r\<lparr>si_invoiceDate := v\<rparr>)])
   @ (case u_dueDate data of None \<Rightarrow> []
      | Some v \<Rightarrow> [(''dueDate'', \<lambda>r. r\<lparr>si_dueDate := v\<rparr>)])
   @ (case u_items data of Absent \<Rightarrow> []
      | Undefined \<Rightarrow> [(''items'', \<lambda>r. r\<lparr>si_items := ParsedNull\<rparr>)]
      | Given v \<Rightarrow> [(''items'', \<lambda>r. r\<lparr>si_items := Parsed v\<rparr>)])
   @ (case u_status data of None \<Rightarrow> []
      | Some v \<Rightarrow> [(''status'', \<lambda>r. r\<lparr>si_status := v\<rparr>)])
   @ (case u_amountPaid data of Absent \<Rightarrow> []
      | Undefined \<Rightarrow> [(''amountPaid'', \<lambda>r. r\<lparr>si_amountPaid := None\<rparr>)]
      | Given v \<Rightarrow> [(''amountPaid'', \<lambda>r. r\<lparr>si_amountPaid := Some v\<rparr>)])"

definition salesInvoice_create ::
  "db \<Rightarrow> nat \<Rightarrow> sales_invoice_data \<Rightarrow> (error + sales_invoice) \<times> db" where
  "salesInvoice_create d now data =
     (let newItem = \<lparr>si_id = ''si-'' @ decimal now, si_invoiceNumber = sd_invoiceNumber data,
                     si_customerId = sd_customerId data, si_invoiceDate = sd_invoiceDate data,
                     si_dueDate = sd_dueDate data, si_items = Parsed (sd_items data),
                     si_status = sd_status data, si_amountPaid = sd_amountPaid data\<rparr>
      in transaction d (\<lambda>d.
           case insert_row si_id (newItem\<lparr>si_amountPaid := Some (or_zero (sd_amountPaid data))\<rparr>)
                  (sales_invoices d) of
             Inl e \<Rightarrow> Inl e
           | Inr rows \<Rightarrow>
               Inr (newItem, d\<lparr>sales_invoices := rows,
                                products := forEach_sub_stock (sd_items data) (products d)\<rparr>)))"

text \<open>
  The items of the old invoice are what getById read: the parsed array, \<open>null\<close>, or the
  raw text when it did not parse; \<open>forEach\<close> throws on the last two. In
  \<open>data.items || oldInvoice.items\<close> an array is truthy.
\<close>

definition salesInvoice_update ::
  "db \<Rightarrow> string \<Rightarrow> sales_invoice_partial \<Rightarrow> (error + sales_invoice option) \<times> db" where
  "salesInvoice_update d i data =
     (case getById si_id (sales_invoices d) i of
        None \<Rightarrow> (Inr None, d)
      | Some oldInvoice \<Rightarrow>
          transaction d (\<lambda>d.
            case si_items oldInvoice of
              Unparsable s \<Rightarrow> Inl TypeError
            | ParsedNull \<Rightarrow> Inl TypeError
            | Parsed oldItems \<Rightarrow>
                let ps1 = forEach_add_stock oldItems (products d);
                    newItems = (case u_items data of
                                  Given xs \<Rightarrow> xs | Undefined \<Rightarrow> oldItems | Absent \<Rightarrow> oldItems);
                    ps2 = forEach_sub_stock newItems ps1
                in (case sql_update_set si_id (sales_fieldEntries data) i (sales_invoices d) of
                      Inl e \<Rightarrow> Inl e
                    | Inr rows \<Rightarrow>
                        let d' = d\<lparr>products := ps2, sales_invoices := rows\<rparr>
                        in Inr (getById si_id (sales_invoices d') i, d'))))"


subsection \<open>purchaseInvoiceStore.update\<close>

record purchase_invoice_partial =
  v_invoiceNumber :: "string option"
  v_supplierId :: "string option"
  v_purchaseDate :: "string option"
  v_items :: "invoice_item list field"
  v_status :: "purchase_status option"
  v_amountPaid :: "real field"

definition purchase_fieldEntries :: "purchase_invoice_partial \<Rightarrow> purchase_invoice fieldEntries" where
  "purchase_fieldEntries data =
     (case v_invoiceNumber data of None \<Rightarrow> []
      | Some v \<Rightarrow> [(''invoiceNumber'', \<lambda>r. r\<lparr>pi_invoiceNumber := v\<rparr>)])
   @ (case v_supplierId data of None \<Rightarrow> []
      | Some v \<Rightarrow> [(''supplierId'', \<lambda>r. r\<lparr>pi_supplierId := v\<rparr>)])
   @ (case v_purchaseDate data of None \<Rightarrow> []
      | Some v \<Rightarrow> [(''purchaseDate'', \<lambda>r. r\<lparr>pi_purchaseDate := v\<rparr>)])
   @ (case v_items data of Absent \<Rightarrow> []
      | Undefined \<Rightarrow> [(''items'', \<lambda>r. r\<lparr>pi_items := ParsedNull\<rparr>)]
      | Given v \<Rightarrow> [(''items'', \<lambda>r. r\<lparr>pi_items := Parsed v\<rparr>)])
   @ (case v_status data of None \<Rightarrow> []
      | Some v \<Rightarrow> [(''status'', \<lambda>r. r\<lparr>pi_status := v\<rparr>)])
   @ (case v_amountPaid data of Absent \<Rightarrow> []
      | Undefined \<Rightarrow> [(''amountPaid'', \<lambda>r. r\<lparr>pi_amountPaid := None\<rparr>)]
      | Given v \<Rightarrow> [(''amountPaid'', \<lambda>r. r\<lparr>pi_amountPaid := Some v\<rparr>)])"

definition purchaseInvoice_update ::
  "db \<Rightarrow> string \<Rightarrow> purchase_invoice_partial \<Rightarrow> (error + purchase_invoice option) \<times> db" where
  "purchaseInvoice_update d i data =
     (case getById pi_id (purchase_invoices d) i of
        None \<Rightarrow> (Inr None, d)
      | Some oldInvoice \<Rightarrow>
          transaction d (\<lambda>d.
            case pi_items oldInvoice of
              Unparsable s \<Rightarrow> Inl TypeError
            | ParsedNull \<Rightarrow> Inl TypeError
            | Parsed oldItems \<Rightarrow>
                let ps1 = forEach_sub_stock oldItems (products d);
                    newItems = (case v_items data of
                                  Given xs \<Rightarrow> xs | Undefined \<Rightarrow> oldItems | Absent \<Rightarrow> oldItems);
                    ps2 = forEach_add_stock newItems ps1
                in (case sql_update_set pi_id (purchase_fieldEntries data) i (purchase_invoices d) of
                      Inl e \<Rightarrow> Inl e
                    | Inr rows \<Rightarrow>
                        let d' = d\<lparr>products := ps2, purchase_invoices := rows\<rparr>
                        in Inr (getById pi_id (purchase_invoices d') i, d'))))"

subsection \<open>productStore.delete\<close>





subsection \<open>customerStore.delete and supplierStore.delete\<close>

text \<open>
  \<open>prepare("SELECT 1 FROM sales_invoices WHERE customerId = ? LIMIT 1")\<close> followed by
  \<open>if (salesStmt.step([id]))\<close>: the id is handed to \<open>step\<close>, and no \<open>bind\<close> precedes it.
\<close>

definition customer_delete :: "db \<Rightarrow> string \<Rightarrow> bool \<times> db" where
  "customer_delete d i =
     (if stmt_step [i] (prepare si_customerId) (sales_invoices d) \<noteq> None then (False, d)
      else if stmt_step [i] (prepare q_customerId) (quotations d) \<noteq> None then (False, d)
      else (True, d\<lparr>customers := filter (\<lambda>c. c_id c \<noteq> i) (customers d)\<rparr>))"

definition supplier_delete :: "db \<Rightarrow> string \<Rightarrow> bool \<times> db" where
  "supplier_delete d i =
     (if stmt_step [i] (prepare pi_supplierId) (purchase_invoices d) \<noteq> None then (False, d)
      else (True, d\<lparr>suppliers := filter (\<lambda>s. s_id s \<noteq> i) (suppliers d)\<rparr>))"

subsection \<open>settingsStore.get\<close>

text \<open>
  \<open>getAsObject([key])\<close> on \<open>SELECT value FROM settings WHERE key = ?\<close>: the value of the
  row with the key. With no such row the object has \<open>value: undefined\<close>, which the test
  \<open>row.value ? ... : default\<close> treats as it treats NULL, so both are \<open>None\<close> here.
\<close>

definition select_value :: "(string \<times> settings_value) list \<Rightarrow> string \<Rightarrow> settings_value" where
  "select_value tbl k = (case find (\<lambda>kv. fst kv = k) tbl of None \<Rightarrow> None | Some kv \<Rightarrow> snd kv)"

text \<open>
  \<open>row.value ? JSON.parse(row.value) : DEFAULT\<close> inside \<open>try\<close>, with \<open>DEFAULT\<close> in \<open>catch\<close>:
  NULL and the empty text are falsy, a text that does not parse throws.
\<close>

definition parse_or_default :: "settings_value \<Rightarrow> json \<Rightarrow> json" where
  "parse_or_default v dflt =
     (case v of None \<Rightarrow> dflt | Some (NotJson s) \<Rightarrow> dflt | Some (JsonText j) \<Rightarrow> j)"

text \<open>
  \<open>JSON.parse(JSON.stringify(v))\<close> for a value \<open>v\<close> that \<open>JSON.parse\<close> yielded:
  \<open>JSON.stringify\<close> writes \<open>null\<close> for an infinite number and \<open>0\<close> for negative zero, and
  the text of every other value reads back as the value.
\<close>

primrec parse_stringify :: "json \<Rightarrow> json" where
  "parse_stringify JNull = JNull"
| "parse_stringify (JBool b) = JBool b"
| "parse_stringify (JNum n) =
     (case n of Num x \<Rightarrow> JNum (Num x) | MinusZero \<Rightarrow> JNum (Num 0)
      | Infinity \<Rightarrow> JNull | MinusInfinity \<Rightarrow> JNull)"
| "parse_stringify (JStr s) = JStr s"
| "parse_stringify (JArr xs) = JArr (map parse_stringify xs)"
| "parse_stringify (JObj kvs) = JObj (map (map_prod id parse_stringify) kvs)"

text \<open>\<open>REPLACE INTO settings (key, value) VALUES (?,?)\<close>, \<open>key\<close> being the primary key.\<close>

definition replace_into ::
  "string \<Rightarrow> settings_value \<Rightarrow> (string \<times> settings_value) list \<Rightarrow> (string \<times> settings_value) list" where
  "replace_into k v tbl = filter (\<lambda>kv. fst kv \<noteq> k) tbl @ [(k, v)]"

definition DUMMY_COMPANY_DETAILS :: json where
  "DUMMY_COMPANY_DETAILS =
     JObj [(''name'', JStr ''LRGP''),
           (''address'', JObj [(''line1'', JStr ''456 Business Avenue''),
                               (''line2'', JStr ''Industrial Area''),
                               (''district'', JStr ''Bangalore Urban''),
                               (''state'', JStr ''Karnataka''),
                               (''country'', JStr ''India''),
                               (''pincode'', JStr ''560098'')]),
           (''email'', JStr ''billing@zenithinc.com''),
           (''phone'', JStr ''+91 98765 43210''),
           (''gstin'', JStr ''29AAAAA0000A1Z5''),
           (''logoUrl'', JStr ''https://www.lrgp.in/images/logo.png'')]"

definition DUMMY_INVOICE_SETTINGS :: json where
  "DUMMY_INVOICE_SETTINGS =
     JObj [(''accentColor'', JStr ''#4f46e5''),
           (''notes'', JStr ''Thank you for your business!''),
           (''terms'', JStr ''Payment is due within 30 days. Late payments are subject to a 2% monthly interest charge.''),
           (''bankDetails'', JObj [(''bankName'', JStr ''Bank of India''),
                                   (''accountNumber'', JStr ''826720110000378''),
                                   (''ifscCode'', JStr ''BKID0008267''),
                                   (''branch'', JStr ''Dindigul'')]),
           (''invoiceNumberPrefix'', JStr ''INV-''),
           (''nextInvoiceNumber'', JNum (Num 5)),
           (''quotationNumberPrefix'', JStr ''QUO-''),
           (''nextQuotationNumber'', JNum (Num 4))]"

record app_settings =
  companyDetails :: json
  invoiceSettings :: json

text \<open>
  What \<open>REPLACE ... run([key, JSON.stringify(v)])\<close> stores is a text that \<open>JSON.parse\<close>
  reads as \<open>parse_stringify v\<close>.
\<close>

definition settings_get :: "db \<Rightarrow> app_settings \<times> db" where
  "settings_get d =
     (let companyDetails =
            parse_or_default (select_value (settings d) ''companyDetails'') DUMMY_COMPANY_DETAILS;
          invoiceSettings =
            parse_or_default (select_value (settings d) ''invoiceSettings'') DUMMY_INVOICE_SETTINGS
      in (\<lparr>companyDetails = companyDetails, invoiceSettings = invoiceSettings\<rparr>,
          d\<lparr>settings :=
               replace_into ''invoiceSettings'' (Some (JsonText (parse_stringify invoiceSettings)))
                 (replace_into ''companyDetails'' (Some (JsonText (parse_stringify companyDetails)))
                    (settings d))\<rparr>))"

subsection \<open>Quantities used to state the properties\<close>

text \<open>The total quantity that the items of a list carry for one product.\<close>

definition item_total :: "string \<Rightarrow> invoice_item list \<Rightarrow> real" where
  "item_total pid items =
     sum_list (map quantity (filter (\<lambda>item. productId item = Some pid \<and> pid \<noteq> []) items))"

text \<open>The stock column of the product found under an id.\<close>

definition stock_of :: "db \<Rightarrow> string \<Rightarrow> real option option" where
  "stock_of d pid = map_option p_stock (getById p_id (products d) pid)"



text \<open>A JSON value with no infinite number and no negative zero in it.\<close>

fun json_plain :: "json \<Rightarrow> bool" where
  "json_plain JNull = True"
| "json_plain (JBool b) = True"
| "json_plain (JNum n) = (case n of Num x \<Rightarrow> True | MinusZero \<Rightarrow> False
                           | Infinity \<Rightarrow> False | MinusInfinity \<Rightarrow> False)"
| "json_plain (JStr s) = True"
| "json_plain (JArr xs) = (\<forall>x \<in> set xs. json_plain x)"
| "json_plain (JObj kvs) = (\<forall>kv \<in> set kvs. json_plain (snd kv))"

subsection \<open>Example store\<close>

text \<open>The first product of constants.ts, alone in an otherwise empty store.\<close>

definition wireless_mouse :: product where
  "wireless_mouse =
     \<lparr>p_id = ''p1'', p_name = ''Wireless Mouse'', p_sku = Some ''WM-001'',
      p_hsnCode = Some ''847160'', p_category = Some ''Electronics'', p_salePrice = 2499,
      p_purchasePrice = 1200, p_taxRate = Some 18, p_stock = Some 150,
      p_reorderPoint = Some 20, p_isService = False\<rparr>"

definition store_A :: db where
  "store_A =
     \<lparr>settings = [], products = [wireless_mouse], customers = [], suppliers = [],
      sales_invoices = [], quotations = [], purchase_invoices = [], stock_adjustments = []\<rparr>"

text \<open>
  A store with one record in each table, after constants.ts: the invoice si1 sells ten
  mice and five keyboards to the customer c1, the purchase invoice pi1 and the quotation
  q2 list the mouse too, and the log holds one adjustment of the mouse and one of the
  keyboard.
\<close>

definition address_c1 :: address where
  "address_c1 =
     \<lparr>line1 = ''123 Tech Park'', line2 = ''Silicon Valley'', district = ''Bangalore Urban'',
      state = ''Karnataka'', country = ''India'', pincode = ''560001''\<rparr>"

definition customer_c1 :: customer where
  "customer_c1 =
     \<lparr>c_id = ''c1'', c_name = ''Tech Solutions Pvt. Ltd.'',
      c_email = Some ''contact@techsolutions.com'', c_phone = Some ''9876543210'',
      c_billingAddress = Parsed address_c1, c_shippingAddress = Parsed address_c1,
      c_gstin = Some ''29ABCDE1234F1Z5''\<rparr>"

definition supplier_s1 :: supplier where
  "supplier_s1 =
     \<lparr>s_id = ''s1'', s_name = ''Electro Supplies India'',
      s_email = Some ''sales@electrosupplies.in'', s_phone = Some ''9123456780'',
      s_address = Parsed \<lparr>line1 = ''101 Component Rd'', line2 = [], district = ''Pune'',
                           state = ''Maharashtra'', country = ''India'', pincode = ''411001''\<rparr>,
      s_gstin = Some ''27RSTUV3456W1Z2''\<rparr>"

definition item_of :: "string \<Rightarrow> real \<Rightarrow> real \<Rightarrow> real \<Rightarrow> invoice_item" where
  "item_of pid q r t =
     \<lparr>productId = Some pid, customItemName = None, hsnCode = None, quantity = q, rate = r,
      taxRate = t\<rparr>"

definition invoice_si1 :: sales_invoice where
  "invoice_si1 =
     \<lparr>si_id = ''si1'', si_invoiceNumber = ''INV-00001'', si_customerId = ''c1'',
      si_invoiceDate = ''2024-07-15'', si_dueDate = ''2024-08-14'',
      si_items = Parsed [item_of ''p1'' 10 2499 18, item_of ''p2'' 5 7499 18],
      si_status = SalesPaid, si_amountPaid = Some 0\<rparr>"

definition quotation_q2 :: quotation where
  "quotation_q2 =
     \<lparr>q_id = ''q2'', q_quotationNumber = ''QUO-00002'', q_customerId = ''c3'',
      q_quoteDate = ''2024-07-12'', q_expiryDate = ''2024-07-27'',
      q_items = Parsed [item_of ''p1'' 20 2499 18, item_of ''p6'' 15 3999 18],
      q_status = Sent\<rparr>"

definition purchase_pi1 :: purchase_invoice where
  "purchase_pi1 =
     \<lparr>pi_id = ''pi1'', pi_invoiceNumber = ''PI-ES-2024-101'', pi_supplierId = ''s1'',
      pi_purchaseDate = ''2024-07-05'',
      pi_items = Parsed [item_of ''p1'' 100 1200 18, item_of ''p2'' 50 4500 18],
      pi_status = PurchaseUnpaid, pi_amountPaid = Some 0\<rparr>"

definition store_B :: db where
  "store_B =
     \<lparr>settings = [], products = [wireless_mouse], customers = [customer_c1],
      suppliers = [supplier_s1], sales_invoices = [invoice_si1], quotations = [quotation_q2],
      purchase_invoices = [purchase_pi1],
      stock_adjustments =
        [\<lparr>sa_id = ''sa-1'', sa_productId = ''p1'', sa_date = ''2024-07-01T00:00:00.000Z'',
          sa_quantityChange = 5, sa_reason = ''count''\<rparr>,
         \<lparr>sa_id = ''sa-2'', sa_productId = ''p2'', sa_date = ''2024-07-02T00:00:00.000Z'',
          sa_quantityChange = -1, sa_reason = ''damaged''\<rparr>]\<rparr>"

text \<open>Partial records: \<open>{}\<close>, \<open>{status: 'Unpaid'}\<close> and \<open>{items: xs}\<close>.\<close>

definition empty_partial :: sales_invoice_partial where
  "empty_partial =
     \<lparr>u_invoiceNumber = None, u_customerId = None, u_invoiceDate = None, u_dueDate = None,
      u_items = Absent, u_status = None, u_amountPaid = Absent\<rparr>"



definition empty_purchase_partial :: purchase_invoice_partial where
  "empty_purchase_partial =
     \<lparr>v_invoiceNumber = None, v_supplierId = None, v_purchaseDate = None, v_items = Absent,
      v_status = None, v_amountPaid = Absent\<rparr>"

text \<open>The data of an invoice that sells \<open>q\<close> units of one product.\<close>

definition one_item_invoice :: "string \<Rightarrow> real \<Rightarrow> sales_invoice_data" where
  "one_item_invoice pid q =
     \<lparr>sd_invoiceNumber = ''INV-00005'', sd_customerId = ''c1'', sd_invoiceDate = ''2024-07-21'',
      sd_dueDate = ''2024-08-20'', sd_items = [item_of pid q 2499 18], sd_status = SalesUnpaid,
      sd_amountPaid = None\<rparr>"

text \<open>
  A store whose companyDetails setting does not parse and whose invoiceSettings setting
  is a JSON object of its own.
\<close>

definition store_C :: db where
  "store_C =
     store_A\<lparr>settings :=
       [(''companyDetails'', Some (NotJson ''{name:'')),
        (''invoiceSettings'', Some (JsonText (JObj [(''nextInvoiceNumber'', JNum (Num 7))])))]\<rparr>"

text \<open>
  The first store after \<open>adjustStock('p1', -50, 'count')\<close> at the clock reading 5, and after
  the sale of 200 mice by an invoice created at the clock reading 5.
\<close>

definition adjusted_A :: db where
  "adjusted_A =
     store_A\<lparr>stock_adjustments :=
                [\<lparr>sa_id = ''sa-5'', sa_productId = ''p1'', sa_date = ''2024-07-15T00:00:00.000Z'',
                  sa_quantityChange = -50, sa_reason = ''count''\<rparr>],
              products := [wireless_mouse\<lparr>p_stock := Some 100\<rparr>]\<rparr>"

definition oversold_A :: db where
  "oversold_A =
     store_A\<lparr>sales_invoices :=
                [\<lparr>si_id = ''si-5'', si_invoiceNumber = ''INV-00005'', si_customerId = ''c1'',
                  si_invoiceDate = ''2024-07-21'', si_dueDate = ''2024-08-20'',
                  si_items = Parsed [item_of ''p1'' 200 2499 18], si_status = SalesUnpaid,
                  si_amountPaid = Some 0\<rparr>],
              products := [wireless_mouse\<lparr>p_stock := Some (-50)\<rparr>]\<rparr>"

text \<open>
  A service, whose stock is NULL, beside the mouse; the second store with the items of
  its sales invoice replaced by the text \<open>null\<close>; and a store whose invoiceSettings setting is
  the text \<open>{"nextInvoiceNumber":1e999}\<close>.
\<close>

definition installation :: product where
  "installation =
     \<lparr>p_id = ''p8'', p_name = ''Installation'', p_sku = None, p_hsnCode = None,
      p_category = Some ''Services'', p_salePrice = 1500, p_purchasePrice = 0,
      p_taxRate = Some 18, p_stock = None, p_reorderPoint = None, p_isService = True\<rparr>"

definition store_S :: db where
  "store_S = store_A\<lparr>products := [wireless_mouse, installation]\<rparr>"


definition store_I :: db where
  "store_I =
     store_A\<lparr>settings :=
       [(''invoiceSettings'', Some (JsonText (JObj [(''nextInvoiceNumber'', JNum Infinity)])))]\<rparr>"

section \<open>Properties\<close>

subsection \<open>Lookups and the stock left by the loops over items\<close>

lemma getById_find: "getById idOf rows i = find (\<lambda>r. idOf r = i) rows"
  by (simp add: getById_def stmt_step_def stmt_bind_def prepare_def)

lemma getById_sql_add_stock:
  "getById p_id (sql_add_stock q pid ps) i =
     map_option (\<lambda>p. if p_id p = pid then p\<lparr>p_stock := map_option (\<lambda>s. s + q) (p_stock p)\<rparr> else p)
       (getById p_id ps i)"
  by (induction ps) (auto simp: getById_find sql_add_stock_def)

lemma item_total_Nil: "item_total pid [] = 0"
  by (simp add: item_total_def)

lemma item_total_Cons:
  "item_total pid (x # xs) =
     (if productId x = Some pid \<and> pid \<noteq> [] then quantity x else 0) + item_total pid xs"
  by (simp add: item_total_def)

lemma forEach_sub_stock_map:
  "forEach_sub_stock items ps =
     map (\<lambda>p. p\<lparr>p_stock := map_option (\<lambda>s. s - item_total (p_id p) items) (p_stock p)\<rparr>) ps"
proof (induction items arbitrary: ps)
  case Nil
  show ?case
    by (simp add: forEach_sub_stock_def item_total_Nil option.map_ident)
next
  case (Cons x xs)
  have step: "forEach_sub_stock (x # xs) ps =
      forEach_sub_stock xs (case productId x of None \<Rightarrow> ps
         | Some pid \<Rightarrow> if pid \<noteq> [] then sql_sub_stock (quantity x) pid ps else ps)"
    by (simp add: forEach_sub_stock_def)
  show ?case
    unfolding step Cons.IH
    by (cases "productId x")
       (auto simp: item_total_Cons sql_sub_stock_def option.map_comp o_def algebra_simps
             intro!: arg_cong[where f="\<lambda>f. map_option f _"])
qed


lemma getById_map_stock:
  "getById p_id (map (\<lambda>p. p\<lparr>p_stock := f p\<rparr>) ps) i =
     map_option (\<lambda>p. p\<lparr>p_stock := f p\<rparr>) (getById p_id ps i)"
  by (induction ps) (auto simp: getById_find)

lemma getById_id: "getById idOf rows i = Some r \<Longrightarrow> idOf r = i"
  by (induction rows) (auto simp: getById_find split: if_splits)

lemma stock_after_sub:
  "map_option p_stock (getById p_id (forEach_sub_stock items ps) i) =
     map_option (map_option (\<lambda>s. s - item_total i items)) (map_option p_stock (getById p_id ps i))"
proof (cases "getById p_id ps i")
  case None
  then show ?thesis by (simp add: forEach_sub_stock_map getById_map_stock)
next
  case (Some p)
  then have "p_id p = i" by (rule getById_id)
  with Some show ?thesis by (simp add: forEach_sub_stock_map getById_map_stock)
qed














lemma stock_of_frame [simp]:
  "stock_of (d\<lparr>sales_invoices := rows\<rparr>) pid = stock_of d pid"
  by (simp add: stock_of_def)


subsection \<open>The rewriting of items by productStore.delete\<close>




















subsection \<open>Manual stock adjustments\<close>

text \<open>
  Claim C1, amended to products whose stock is a number. For a product \<open>p\<close> found under
  \<open>pid\<close> with the stock \<open>s\<close>: when the change \<open>q\<close> is negative and \<open>s + q\<close> is negative,
  adjustStock fails with the insufficient-stock error (\<open>StockCannotBeNegative\<close>) and the
  store is left as it was, so the stock and the adjustment log are unchanged. Otherwise
  the two writes happen together or not at all: when the id of the new log row is not yet
  in the log, one StockAdjustment row is appended, the stock of the product becomes
  \<open>s + q\<close>, nothing else changes, and the updated product is returned; when the id is
  taken, the INSERT fails and the store is left as it was.
\<close>

theorem adjustStock_numeric_stock:
  assumes found: "getById p_id (products d) pid = Some p"
    and stock: "p_stock p = Some s"
  shows "(q < 0 \<and> s + q < 0 \<longrightarrow>
            adjustStock d now isoDate pid q reason = (Inl (StockCannotBeNegative (Some s) q), d))
       \<and> (\<not> (q < 0 \<and> s + q < 0) \<longrightarrow>
            (let row = \<lparr>sa_id = ''sa-'' @ decimal now, sa_productId = pid, sa_date = isoDate,
                        sa_quantityChange = q, sa_reason = reason\<rparr>;
                 p' = p\<lparr>p_stock := Some (s + q)\<rparr>;
                 d' = d\<lparr>stock_adjustments := stock_adjustments d @ [row],
                        products := map (\<lambda>r. if p_id r = pid
                                              then r\<lparr>p_stock := map_option (\<lambda>t. t + q) (p_stock r)\<rparr>
                                              else r) (products d)\<rparr>
             in (sa_id row \<notin> sa_id ` set (stock_adjustments d) \<longrightarrow>
                   adjustStock d now isoDate pid q reason = (Inr (Some p'), d')
                   \<and> getById p_id (products d') pid = Some p')
              \<and> (sa_id row \<in> sa_id ` set (stock_adjustments d) \<longrightarrow>
                   adjustStock d now isoDate pid q reason = (Inl (SqlUniqueConstraint (sa_id row)), d))))"
proof -
  have pid: "p_id p = pid"
    using found by (rule getById_id)
  have upd: "getById p_id (sql_add_stock q pid (products d)) pid = Some (p\<lparr>p_stock := Some (s + q)\<rparr>)"
    by (simp add: getById_sql_add_stock found pid stock)
  have upd': "getById p_id (map (\<lambda>r. if p_id r = pid
                                       then r\<lparr>p_stock := map_option (\<lambda>t. t + q) (p_stock r)\<rparr>
                                       else r) (products d)) pid = Some (p\<lparr>p_stock := Some (s + q)\<rparr>)"
    using upd by (simp add: sql_add_stock_def)
  show ?thesis
    using found upd upd' stock
    by (simp add: adjustStock_def transaction_def insert_row_def Let_def js_num_def sql_add_stock_def)
qed

theorem adjustStock_numeric_stock_witness:
  "getById p_id (products store_A) ''p1'' = Some wireless_mouse
   \<and> p_stock wireless_mouse = Some 150
   \<and> adjustStock store_A 5 ''2024-07-15T00:00:00.000Z'' ''p1'' (-200) ''count''
       = (Inl (StockCannotBeNegative (Some 150) (-200)), store_A)
   \<and> adjustStock store_A 5 ''2024-07-15T00:00:00.000Z'' ''p1'' (-50) ''count''
       = (Inr (Some (wireless_mouse\<lparr>p_stock := Some 100\<rparr>)), adjusted_A)
   \<and> getById p_id (products adjusted_A) ''p1'' = Some (wireless_mouse\<lparr>p_stock := Some 100\<rparr>)
   \<and> adjustStock adjusted_A 5 ''2024-07-15T00:00:00.001Z'' ''p1'' 7 ''recount''
       = (Inl (SqlUniqueConstraint ''sa-5''), adjusted_A)"
proof -
  have f: "getById p_id (products store_A) ''p1'' = Some wireless_mouse"
    by (simp add: getById_find store_A_def wireless_mouse_def)
  have f2: "getById p_id (products adjusted_A) ''p1'' = Some (wireless_mouse\<lparr>p_stock := Some 100\<rparr>)"
    by (simp add: getById_find adjusted_A_def store_A_def wireless_mouse_def)
  have dec: "decimal 5 = ''5''"
    by (simp add: decimal.simps digit_char_def)
  have s: "p_stock wireless_mouse = Some 150"
    by (simp add: wireless_mouse_def)
  have s2: "p_stock (wireless_mouse\<lparr>p_stock := Some 100\<rparr>) = Some 100"
    by simp
  have a: "adjustStock store_A 5 ''2024-07-15T00:00:00.000Z'' ''p1'' (-200) ''count''
       = (Inl (StockCannotBeNegative (Some 150) (-200)), store_A)"
    using adjustStock_numeric_stock [OF f s, of "-200" 5 "''2024-07-15T00:00:00.000Z''" "''count''"]
    by simp
  have b: "adjustStock store_A 5 ''2024-07-15T00:00:00.000Z'' ''p1'' (-50) ''count''
       = (Inr (Some (wireless_mouse\<lparr>p_stock := Some 100\<rparr>)), adjusted_A)"
    using adjustStock_numeric_stock [OF f s, of "-50" 5 "''2024-07-15T00:00:00.000Z''" "''count''"]
    by (simp add: dec Let_def adjusted_A_def store_A_def wireless_mouse_def)
  have c: "adjustStock adjusted_A 5 ''2024-07-15T00:00:00.001Z'' ''p1'' 7 ''recount''
       = (Inl (SqlUniqueConstraint ''sa-5''), adjusted_A)"
    using adjustStock_numeric_stock [OF f2 s2, of 7 5 "''2024-07-15T00:00:00.001Z''" "''recount''"]
    by (simp add: dec Let_def adjusted_A_def store_A_def)
  show ?thesis using f s f2 a b c by simp
qed

text \<open>
  Claim C1 as stated speaks of every product. It fails for a product whose stock is NULL,
  as the stock of a service is, whichever way \<open>p.stock + q\<close> is read there. Read as
  JavaScript reads it (\<open>null + q\<close> is \<open>q\<close>), the adjustment by 3 should set the stock to 3:
  the code appends the log row and leaves the stock NULL. Read as SQL reads it
  (\<open>NULL + q\<close> is NULL, which is not negative), the adjustment by -1 should be written: the
  code rejects it.
\<close>

theorem adjustStock_null_stock_counterexample:
  "getById p_id (products store_S) ''p8'' = Some installation
   \<and> p_stock installation = None
   \<and> adjustStock store_S 5 ''2024-07-15T00:00:00.000Z'' ''p8'' 3 ''recount''
       = (Inr (Some installation),
          store_S\<lparr>stock_adjustments :=
                    [\<lparr>sa_id = ''sa-5'', sa_productId = ''p8'', sa_date = ''2024-07-15T00:00:00.000Z'',
                      sa_quantityChange = 3, sa_reason = ''recount''\<rparr>]\<rparr>)
   \<and> p_stock installation \<noteq> Some (js_num (p_stock installation) + 3)
   \<and> adjustStock store_S 5 ''2024-07-15T00:00:00.000Z'' ''p8'' (-1) ''recount''
       = (Inl (StockCannotBeNegative None (-1)), store_S)
   \<and> map_option (\<lambda>s. s + (-1)) (p_stock installation) = None"
  by (simp add: adjustStock_def transaction_def insert_row_def Let_def js_num_def sql_add_stock_def
        getById_find store_S_def store_A_def installation_def wireless_mouse_def
        decimal.simps digit_char_def)

subsection \<open>Updating and deleting a sales invoice\<close>



subsection \<open>Creating a sales invoice\<close>

text \<open>
  Claim C3. createSalesInvoice is one atomic unit. When the id of the new invoice is not
  yet in the table, it succeeds for every invoice data: the invoice row is appended, and
  the stock of every product is lowered by the quantities of the items that carry its id
  (the result of the loop over the items), while the StockAdjustment log is left as it
  was. No condition on the stock is asked for, so the stock left may be negative. When
  the id is taken, the INSERT fails and the store is left as it was.
\<close>

theorem salesInvoice_create_decrements_without_validation:
  "(let new_id = ''si-'' @ decimal now;
        newItem = \<lparr>si_id = new_id, si_invoiceNumber = sd_invoiceNumber data,
                   si_customerId = sd_customerId data, si_invoiceDate = sd_invoiceDate data,
                   si_dueDate = sd_dueDate data, si_items = Parsed (sd_items data),
                   si_status = sd_status data, si_amountPaid = sd_amountPaid data\<rparr>;
        row = newItem\<lparr>si_amountPaid := Some (or_zero (sd_amountPaid data))\<rparr>;
        d' = d\<lparr>sales_invoices := sales_invoices d @ [row],
               products := map (\<lambda>p. p\<lparr>p_stock := map_option (\<lambda>s. s - item_total (p_id p) (sd_items data))
                                                     (p_stock p)\<rparr>) (products d)\<rparr>
    in (new_id \<notin> si_id ` set (sales_invoices d) \<longrightarrow>
          salesInvoice_create d now data = (Inr newItem, d')
          \<and> products d' = forEach_sub_stock (sd_items data) (products d)
          \<and> stock_adjustments d' = stock_adjustments d
          \<and> (\<forall>pid. stock_of d' pid = map_option (map_option (\<lambda>s. s - item_total pid (sd_items data))) (stock_of d pid)))
     \<and> (new_id \<in> si_id ` set (sales_invoices d) \<longrightarrow>
          salesInvoice_create d now data = (Inl (SqlUniqueConstraint new_id), d)))"
proof -
  have st: "\<And>ps pid. map_option p_stock (getById p_id (forEach_sub_stock (sd_items data) ps) pid)
     = map_option (map_option (\<lambda>s. s - item_total pid (sd_items data))) (map_option p_stock (getById p_id ps pid))"
    by (rule stock_after_sub)
  show ?thesis
    using st
    by (simp add: salesInvoice_create_def transaction_def insert_row_def Let_def
          forEach_sub_stock_map stock_of_def)
qed

theorem salesInvoice_create_decrements_without_validation_witness:
  "''si-'' @ decimal 5 \<notin> si_id ` set (sales_invoices store_A)
   \<and> stock_of store_A ''p1'' = Some (Some 150)
   \<and> salesInvoice_create store_A 5 (one_item_invoice ''p1'' 200)
       = (Inr \<lparr>si_id = ''si-5'', si_invoiceNumber = ''INV-00005'', si_customerId = ''c1'',
               si_invoiceDate = ''2024-07-21'', si_dueDate = ''2024-08-20'',
               si_items = Parsed [item_of ''p1'' 200 2499 18], si_status = SalesUnpaid,
               si_amountPaid = None\<rparr>,
          oversold_A)
   \<and> stock_of oversold_A ''p1'' = Some (Some (-50))
   \<and> stock_adjustments oversold_A = stock_adjustments store_A
   \<and> ''si-'' @ decimal 5 \<in> si_id ` set (sales_invoices oversold_A)
   \<and> salesInvoice_create oversold_A 5 (one_item_invoice ''p1'' 1)
       = (Inl (SqlUniqueConstraint ''si-5''), oversold_A)"
proof -
  have dec: "decimal 5 = ''5''"
    by (simp add: decimal.simps digit_char_def)
  have fresh: "''si-'' @ decimal 5 \<notin> si_id ` set (sales_invoices store_A)"
    by (simp add: store_A_def)
  have taken: "''si-'' @ decimal 5 \<in> si_id ` set (sales_invoices oversold_A)"
    by (simp add: oversold_A_def dec)
  have s0: "stock_of store_A ''p1'' = Some (Some 150)"
    by (simp add: stock_of_def getById_find store_A_def wireless_mouse_def)
  have s1: "stock_of oversold_A ''p1'' = Some (Some (-50))"
    by (simp add: stock_of_def getById_find oversold_A_def wireless_mouse_def)
  have sa: "stock_adjustments oversold_A = stock_adjustments store_A"
    by (simp add: oversold_A_def)
  have eq: "salesInvoice_create store_A 5 (one_item_invoice ''p1'' 200) =
      (Inr \<lparr>si_id = ''si-5'', si_invoiceNumber = ''INV-00005'', si_customerId = ''c1'',
              si_invoiceDate = ''2024-07-21'', si_dueDate = ''2024-08-20'',
              si_items = Parsed [item_of ''p1'' 200 2499 18], si_status = SalesUnpaid,
              si_amountPaid = None\<rparr>,
       oversold_A)"
    using salesInvoice_create_decrements_without_validation
            [of 5 "one_item_invoice ''p1'' 200" store_A] fresh
    by (simp add: Let_def dec one_item_invoice_def oversold_A_def store_A_def wireless_mouse_def
          item_total_def item_of_def or_zero_def)
  have again: "salesInvoice_create oversold_A 5 (one_item_invoice ''p1'' 1)
       = (Inl (SqlUniqueConstraint ''si-5''), oversold_A)"
    using salesInvoice_create_decrements_without_validation
            [of 5 "one_item_invoice ''p1'' 1" oversold_A] taken
    by (simp add: Let_def dec)
  show ?thesis
    using fresh s0 eq s1 sa taken again by simp
qed

subsection \<open>Deleting a product\<close>




subsection \<open>Deleting a customer or a supplier\<close>

text \<open>
  The statements that look for a linked record are stepped with their parameter unbound,
  so they never have a row: the two operations delete in every store.
\<close>

lemma customer_delete_never_blocked:
  "customer_delete d i = (True, d\<lparr>customers := filter (\<lambda>c. c_id c \<noteq> i) (customers d)\<rparr>)"
  by (simp add: customer_delete_def stmt_step_def prepare_def)

lemma supplier_delete_never_blocked:
  "supplier_delete d i = (True, d\<lparr>suppliers := filter (\<lambda>s. s_id s \<noteq> i) (suppliers d)\<rparr>)"
  by (simp add: supplier_delete_def stmt_step_def prepare_def)

text \<open>
  Claim C5 does not hold of the code. In the example store the sales invoice si1 has the
  customerId c1 and the purchase invoice pi1 has the supplierId s1; deleting the customer
  c1 and deleting the supplier s1 both return \<open>true\<close> and remove the row, where the claim
  asks for a failure that leaves the store unchanged.
\<close>

theorem customer_delete_with_linked_invoice:
  "list_ex (\<lambda>r. si_customerId r = ''c1'') (sales_invoices store_B)
   \<and> customer_delete store_B ''c1'' = (True, store_B\<lparr>customers := []\<rparr>)
   \<and> list_ex (\<lambda>r. pi_supplierId r = ''s1'') (purchase_invoices store_B)
   \<and> supplier_delete store_B ''s1'' = (True, store_B\<lparr>suppliers := []\<rparr>)"
  by (simp add: customer_delete_never_blocked supplier_delete_never_blocked store_B_def
        invoice_si1_def purchase_pi1_def customer_c1_def supplier_s1_def)

subsection \<open>Reading the settings\<close>

lemma select_value_replace_same:
  "select_value (replace_into k v tbl) k = v"
  by (induction tbl) (auto simp: select_value_def replace_into_def)

lemma select_value_replace_other:
  "k' \<noteq> k \<Longrightarrow> select_value (replace_into k v tbl) k' = select_value tbl k'"
  by (induction tbl) (auto simp: select_value_def replace_into_def)

lemma map_fixed: "map f xs = xs \<longleftrightarrow> (\<forall>x \<in> set xs. f x = x)"
  by (induction xs) auto

lemma parse_stringify_fixed: "parse_stringify v = v \<longleftrightarrow> json_plain v"
proof (induction v)
  case (JNum n)
  show ?case by (cases n) simp_all
next
  case (JArr xs)
  then show ?case by (simp add: map_fixed)
next
  case (JObj kvs)
  have "map_prod id parse_stringify kv = kv \<longleftrightarrow> json_plain (snd kv)" if "kv \<in> set kvs" for kv
    using JObj [OF that, of "snd kv"] by (cases kv) (simp add: snds.simps)
  then show ?case by (simp add: map_fixed)
qed simp_all

lemma json_plain_parse_stringify: "json_plain (parse_stringify v)"
proof (induction v)
  case (JNum n)
  show ?case by (cases n) simp_all
next
  case (JObj kvs)
  have "json_plain (parse_stringify (snd kv))" if "kv \<in> set kvs" for kv
    using JObj [OF that, of "snd kv"] by (cases kv) (simp add: snds.simps)
  then show ?case by simp
qed simp_all

lemma settings_get_companyDetails:
  "companyDetails (fst (settings_get d)) =
      parse_or_default (select_value (settings d) ''companyDetails'') DUMMY_COMPANY_DETAILS"
  by (simp add: settings_get_def Let_def)

lemma settings_get_invoiceSettings:
  "invoiceSettings (fst (settings_get d)) =
      parse_or_default (select_value (settings d) ''invoiceSettings'') DUMMY_INVOICE_SETTINGS"
  by (simp add: settings_get_def Let_def)

lemma settings_get_stored_companyDetails:
  "select_value (settings (snd (settings_get d))) ''companyDetails''
       = Some (JsonText (parse_stringify (companyDetails (fst (settings_get d)))))"
  by (simp add: settings_get_def Let_def select_value_replace_same select_value_replace_other)

lemma settings_get_stored_invoiceSettings:
  "select_value (settings (snd (settings_get d))) ''invoiceSettings''
       = Some (JsonText (parse_stringify (invoiceSettings (fst (settings_get d)))))"
  by (simp add: settings_get_def Let_def select_value_replace_same)

lemma settings_get_again:
  "fst (settings_get (snd (settings_get d))) =
     \<lparr>companyDetails = parse_stringify (companyDetails (fst (settings_get d))),
      invoiceSettings = parse_stringify (invoiceSettings (fst (settings_get d)))\<rparr>"
proof -
  have "companyDetails (fst (settings_get (snd (settings_get d))))
          = parse_stringify (companyDetails (fst (settings_get d)))"
    unfolding settings_get_companyDetails [of "snd (settings_get d)"] settings_get_stored_companyDetails
    by (simp add: parse_or_default_def)
  moreover have "invoiceSettings (fst (settings_get (snd (settings_get d))))
          = parse_stringify (invoiceSettings (fst (settings_get d)))"
    unfolding settings_get_invoiceSettings [of "snd (settings_get d)"] settings_get_stored_invoiceSettings
    by (simp add: parse_or_default_def)
  ultimately show ?thesis by simp
qed

text \<open>
  Claim C7, amended in its last part. getSettings returns, for each of the two keys on its
  own, the stored JSON value when the value is present and parses, and the built-in
  default when it is missing (no row, NULL, the empty text) or does not parse: the
  companyDetails returned depends on the companyDetails setting only, the invoiceSettings
  returned on the invoiceSettings setting only. What is written back under each key is the
  text that \<open>JSON.stringify\<close> makes of the returned value, and only the settings table
  changes. A second getSettings right after the first returns what \<open>JSON.parse\<close> reads in
  these texts: the same record exactly when neither returned value holds an infinite
  number or a negative zero, which holds of both defaults; a third getSettings returns
  what the second returned.
\<close>

theorem settings_get_defaults_and_persists:
  "companyDetails (fst (settings_get d)) =
     (case select_value (settings d) ''companyDetails'' of
        Some (JsonText j) \<Rightarrow> j | Some (NotJson s) \<Rightarrow> DUMMY_COMPANY_DETAILS
      | None \<Rightarrow> DUMMY_COMPANY_DETAILS)
   \<and> invoiceSettings (fst (settings_get d)) =
     (case select_value (settings d) ''invoiceSettings'' of
        Some (JsonText j) \<Rightarrow> j | Some (NotJson s) \<Rightarrow> DUMMY_INVOICE_SETTINGS
      | None \<Rightarrow> DUMMY_INVOICE_SETTINGS)
   \<and> (\<forall>d'. select_value (settings d') ''invoiceSettings'' = select_value (settings d) ''invoiceSettings''
          \<longrightarrow> invoiceSettings (fst (settings_get d')) = invoiceSettings (fst (settings_get d)))
   \<and> (\<forall>d'. select_value (settings d') ''companyDetails'' = select_value (settings d) ''companyDetails''
          \<longrightarrow> companyDetails (fst (settings_get d')) = companyDetails (fst (settings_get d)))
   \<and> select_value (settings (snd (settings_get d))) ''companyDetails''
       = Some (JsonText (parse_stringify (companyDetails (fst (settings_get d)))))
   \<and> select_value (settings (snd (settings_get d))) ''invoiceSettings''
       = Some (JsonText (parse_stringify (invoiceSettings (fst (settings_get d)))))
   \<and> fst (settings_get (snd (settings_get d))) =
       \<lparr>companyDetails = parse_stringify (companyDetails (fst (settings_get d))),
        invoiceSettings = parse_stringify (invoiceSettings (fst (settings_get d)))\<rparr>
   \<and> (fst (settings_get (snd (settings_get d))) = fst (settings_get d)
        \<longleftrightarrow> json_plain (companyDetails (fst (settings_get d)))
            \<and> json_plain (invoiceSettings (fst (settings_get d))))
   \<and> json_plain DUMMY_COMPANY_DETAILS
   \<and> json_plain DUMMY_INVOICE_SETTINGS
   \<and> fst (settings_get (snd (settings_get (snd (settings_get d)))))
       = fst (settings_get (snd (settings_get d)))
   \<and> (snd (settings_get d))\<lparr>settings := settings d\<rparr> = d"
proof -
  have same: "fst (settings_get (snd (settings_get d))) = fst (settings_get d)
        \<longleftrightarrow> json_plain (companyDetails (fst (settings_get d)))
            \<and> json_plain (invoiceSettings (fst (settings_get d)))"
  proof -
    have "fst (settings_get (snd (settings_get d))) = fst (settings_get d)
        \<longleftrightarrow> parse_stringify (companyDetails (fst (settings_get d))) = companyDetails (fst (settings_get d))
            \<and> parse_stringify (invoiceSettings (fst (settings_get d))) = invoiceSettings (fst (settings_get d))"
      unfolding settings_get_again [of d]
      by (cases "fst (settings_get d)") auto
    then show ?thesis
      by (simp only: parse_stringify_fixed)
  qed
  have third: "fst (settings_get (snd (settings_get (snd (settings_get d)))))
       = fst (settings_get (snd (settings_get d)))"
    unfolding settings_get_again [of "snd (settings_get d)"]
    unfolding settings_get_again [of d]
    by (simp add: parse_stringify_fixed json_plain_parse_stringify)
  have pc: "json_plain DUMMY_COMPANY_DETAILS"
    by (simp add: DUMMY_COMPANY_DETAILS_def)
  have pi: "json_plain DUMMY_INVOICE_SETTINGS"
    by (simp add: DUMMY_INVOICE_SETTINGS_def)
  have frame: "(snd (settings_get d))\<lparr>settings := settings d\<rparr> = d"
    by (simp add: settings_get_def Let_def)
  have c: "companyDetails (fst (settings_get d)) =
     (case select_value (settings d) ''companyDetails'' of
        Some (JsonText j) \<Rightarrow> j | Some (NotJson s) \<Rightarrow> DUMMY_COMPANY_DETAILS
      | None \<Rightarrow> DUMMY_COMPANY_DETAILS)"
    by (simp add: settings_get_companyDetails parse_or_default_def
          split: option.split settings_text.split)
  have i: "invoiceSettings (fst (settings_get d)) =
     (case select_value (settings d) ''invoiceSettings'' of
        Some (JsonText j) \<Rightarrow> j | Some (NotJson s) \<Rightarrow> DUMMY_INVOICE_SETTINGS
      | None \<Rightarrow> DUMMY_INVOICE_SETTINGS)"
    by (simp add: settings_get_invoiceSettings parse_or_default_def
          split: option.split settings_text.split)
  have indc: "\<forall>d'. select_value (settings d') ''companyDetails'' = select_value (settings d) ''companyDetails''
          \<longrightarrow> companyDetails (fst (settings_get d')) = companyDetails (fst (settings_get d))"
    by (simp add: settings_get_companyDetails)
  have indi: "\<forall>d'. select_value (settings d') ''invoiceSettings'' = select_value (settings d) ''invoiceSettings''
          \<longrightarrow> invoiceSettings (fst (settings_get d')) = invoiceSettings (fst (settings_get d))"
    by (simp add: settings_get_invoiceSettings)
  show ?thesis
    using c i indc indi settings_get_stored_companyDetails [of d]
      settings_get_stored_invoiceSettings [of d] settings_get_again [of d] same pc pi third frame
    by blast
qed

theorem settings_get_defaults_and_persists_witness:
  "select_value (settings store_C) ''companyDetails'' = Some (NotJson ''{name:'')
   \<and> select_value (settings store_C) ''invoiceSettings''
       = Some (JsonText (JObj [(''nextInvoiceNumber'', JNum (Num 7))]))
   \<and> fst (settings_get store_C)
       = \<lparr>companyDetails = DUMMY_COMPANY_DETAILS,
          invoiceSettings = JObj [(''nextInvoiceNumber'', JNum (Num 7))]\<rparr>
   \<and> fst (settings_get (snd (settings_get store_C)))
       = \<lparr>companyDetails = DUMMY_COMPANY_DETAILS,
          invoiceSettings = JObj [(''nextInvoiceNumber'', JNum (Num 7))]\<rparr>
   \<and> settings (snd (settings_get store_C))
       = [(''companyDetails'', Some (JsonText DUMMY_COMPANY_DETAILS)),
          (''invoiceSettings'', Some (JsonText (JObj [(''nextInvoiceNumber'', JNum (Num 7))])))]
   \<and> invoiceSettings (fst (settings_get store_I))
       = JObj [(''nextInvoiceNumber'', JNum Infinity)]
   \<and> invoiceSettings (fst (settings_get (snd (settings_get store_I))))
       = JObj [(''nextInvoiceNumber'', JNull)]"
proof -
  have a: "select_value (settings store_C) ''companyDetails'' = Some (NotJson ''{name:'')"
    and b: "select_value (settings store_C) ''invoiceSettings''
       = Some (JsonText (JObj [(''nextInvoiceNumber'', JNum (Num 7))]))"
    by (simp_all add: select_value_def store_C_def)
  have e: "select_value (settings store_I) ''invoiceSettings''
       = Some (JsonText (JObj [(''nextInvoiceNumber'', JNum Infinity)]))"
    by (simp add: select_value_def store_I_def)
  note t = settings_get_defaults_and_persists [of store_C]
  note u = settings_get_defaults_and_persists [of store_I]
  have r: "fst (settings_get store_C)
       = \<lparr>companyDetails = DUMMY_COMPANY_DETAILS,
          invoiceSettings = JObj [(''nextInvoiceNumber'', JNum (Num 7))]\<rparr>"
    using t a b by (cases "fst (settings_get store_C)") simp
  have pl: "json_plain (companyDetails (fst (settings_get store_C)))
            \<and> json_plain (invoiceSettings (fst (settings_get store_C)))"
  proof -
    have "json_plain DUMMY_COMPANY_DETAILS"
      using t by blast
    then show ?thesis
      by (simp add: r)
  qed
  have r2: "fst (settings_get (snd (settings_get store_C))) = fst (settings_get store_C)"
    using t pl by blast
  have s: "settings (snd (settings_get store_C))
       = [(''companyDetails'', Some (JsonText DUMMY_COMPANY_DETAILS)),
          (''invoiceSettings'', Some (JsonText (JObj [(''nextInvoiceNumber'', JNum (Num 7))])))]"
    by (simp add: settings_get_def Let_def select_value_def store_C_def replace_into_def
          parse_or_default_def DUMMY_COMPANY_DETAILS_def)
  have i1: "invoiceSettings (fst (settings_get store_I))
       = JObj [(''nextInvoiceNumber'', JNum Infinity)]"
    using u e by simp
  have "fst (settings_get (snd (settings_get store_I))) =
       \<lparr>companyDetails = parse_stringify (companyDetails (fst (settings_get store_I))),
        invoiceSettings = parse_stringify (invoiceSettings (fst (settings_get store_I)))\<rparr>"
    using u by blast
  then have i2: "invoiceSettings (fst (settings_get (snd (settings_get store_I))))
       = JObj [(''nextInvoiceNumber'', JNull)]"
    unfolding i1 by simp
  show ?thesis
    using a b r r2 s i1 i2 by simp
qed

text \<open>
  The claim as the specification states it, for every settings state, fails when the
  invoiceSettings setting is the text \<open>{"nextInvoiceNumber":1e999}\<close>: the first getSettings
  returns the number \<open>Infinity\<close>, writes back \<open>{"nextInvoiceNumber":null}\<close>, and the second
  getSettings returns \<open>null\<close> in its place.
\<close>

theorem settings_get_infinite_number_counterexample:
  "select_value (settings store_I) ''invoiceSettings''
       = Some (JsonText (JObj [(''nextInvoiceNumber'', JNum Infinity)]))
   \<and> invoiceSettings (fst (settings_get store_I))
       = JObj [(''nextInvoiceNumber'', JNum Infinity)]
   \<and> invoiceSettings (fst (settings_get (snd (settings_get store_I))))
       = JObj [(''nextInvoiceNumber'', JNull)]
   \<and> fst (settings_get (snd (settings_get store_I))) \<noteq> fst (settings_get store_I)"
proof -
  have e: "select_value (settings store_I) ''invoiceSettings''
       = Some (JsonText (JObj [(''nextInvoiceNumber'', JNum Infinity)]))"
    by (simp add: select_value_def store_I_def)
  have i1: "invoiceSettings (fst (settings_get store_I))
       = JObj [(''nextInvoiceNumber'', JNum Infinity)]"
    by (simp add: settings_get_invoiceSettings e parse_or_default_def)
  have i2: "invoiceSettings (fst (settings_get (snd (settings_get store_I))))
       = JObj [(''nextInvoiceNumber'', JNull)]"
    unfolding settings_get_again [of store_I] i1 by simp
  have "invoiceSettings (fst (settings_get (snd (settings_get store_I))))
          \<noteq> invoiceSettings (fst (settings_get store_I))"
    unfolding i1 i2 by simp
  then have ne: "fst (settings_get (snd (settings_get store_I))) \<noteq> fst (settings_get store_I)"
    by auto
  show ?thesis
    using e i1 i2 ne by simp
qed

subsection \<open>Updating with an empty partial record\<close>

text \<open>
  The \<open>update\<close> of a store made by createStore returns the current record and leaves the
  table as it was when the partial record is empty. The \<open>update\<close> of the sales and of the
  purchase invoice store has no such test: with an empty partial record the SET clause is
  empty, \<open>prepare\<close> throws, and the transaction is rolled back.
\<close>

lemma createStore_update_empty:
  "createStore_update idOf rows i [] = (Inr (getById idOf rows i), rows)"
  by (simp add: createStore_update_def)

lemma sales_fieldEntries_empty: "sales_fieldEntries empty_partial = []"
  by (simp add: sales_fieldEntries_def empty_partial_def)

lemma purchase_fieldEntries_empty: "purchase_fieldEntries empty_purchase_partial = []"
  by (simp add: purchase_fieldEntries_def empty_purchase_partial_def)

lemma salesInvoice_update_empty_raises:
  assumes "getById si_id (sales_invoices d) i = Some invoice" and "si_items invoice = Parsed old"
  shows "salesInvoice_update d i empty_partial = (Inl SqlSyntaxError, d)"
  using assms
  by (simp add: salesInvoice_update_def transaction_def sql_update_set_def Let_def
        sales_fieldEntries_empty)

lemma purchaseInvoice_update_empty_raises:
  assumes "getById pi_id (purchase_invoices d) i = Some invoice" and "pi_items invoice = Parsed old"
  shows "purchaseInvoice_update d i empty_purchase_partial = (Inl SqlSyntaxError, d)"
  using assms
  by (simp add: purchaseInvoice_update_def transaction_def sql_update_set_def Let_def
        purchase_fieldEntries_empty)

text \<open>
  Claim C8 does not hold of the code for the two invoice stores. In the example store,
  updating the sales invoice si1, and the purchase invoice pi1, with \<open>{}\<close> throws (the
  store is left as it was), where the claim asks for the current record and no error;
  updating the quotation q2 with \<open>{}\<close> through the generic store returns the current record.
\<close>

theorem update_empty_partial_of_invoice_raises:
  "getById si_id (sales_invoices store_B) ''si1'' = Some invoice_si1
   \<and> salesInvoice_update store_B ''si1'' empty_partial = (Inl SqlSyntaxError, store_B)
   \<and> getById pi_id (purchase_invoices store_B) ''pi1'' = Some purchase_pi1
   \<and> purchaseInvoice_update store_B ''pi1'' empty_purchase_partial = (Inl SqlSyntaxError, store_B)
   \<and> createStore_update q_id (quotations store_B) ''q2'' [] = (Inr (Some quotation_q2), quotations store_B)"
proof -
  have a: "getById si_id (sales_invoices store_B) ''si1'' = Some invoice_si1"
    by (simp add: getById_find store_B_def invoice_si1_def)
  have b: "getById pi_id (purchase_invoices store_B) ''pi1'' = Some purchase_pi1"
    by (simp add: getById_find store_B_def purchase_pi1_def)
  have c: "getById q_id (quotations store_B) ''q2'' = Some quotation_q2"
    by (simp add: getById_find store_B_def quotation_q2_def)
  have a': "salesInvoice_update store_B ''si1'' empty_partial = (Inl SqlSyntaxError, store_B)"
    by (rule salesInvoice_update_empty_raises [OF a]) (simp add: invoice_si1_def)
  have b': "purchaseInvoice_update store_B ''pi1'' empty_purchase_partial = (Inl SqlSyntaxError, store_B)"
    by (rule purchaseInvoice_update_empty_raises [OF b]) (simp add: purchase_pi1_def)
  show ?thesis
    using a b a' b' by (simp add: createStore_update_empty c)
qed

subsection \<open>Deleting from a generic store\<close>

lemma filter_other_ids:
  "getById idOf rows i = None \<Longrightarrow> filter (\<lambda>r. idOf r \<noteq> i) rows = rows"
  by (induction rows) (auto simp: getById_find split: if_splits)

text \<open>
  Claim C9. The \<open>delete\<close> of a store made by createStore returns \<open>true\<close> for every id and
  leaves the table without the rows of that id. When no row has the id, it still returns
  \<open>true\<close>, and the table is as it was.
\<close>

theorem createStore_delete_returns_true:
  "fst (createStore_delete idOf rows i) = True
   \<and> snd (createStore_delete idOf rows i) = filter (\<lambda>r. idOf r \<noteq> i) rows
   \<and> (getById idOf rows i = None \<longrightarrow> createStore_delete idOf rows i = (True, rows))"
  by (simp add: createStore_delete_def filter_other_ids)

theorem createStore_delete_returns_true_witness:
  "getById q_id (quotations store_B) ''q9'' = None
   \<and> createStore_delete q_id (quotations store_B) ''q9'' = (True, quotations store_B)
   \<and> createStore_delete q_id (quotations store_B) ''q2'' = (True, [])"
proof -
  have n: "getById q_id (quotations store_B) ''q9'' = None"
    by (simp add: getById_find store_B_def quotation_q2_def)
  have a: "createStore_delete q_id (quotations store_B) ''q9'' = (True, quotations store_B)"
    using createStore_delete_returns_true [of q_id "quotations store_B" "''q9''"] n by simp
  have b: "createStore_delete q_id (quotations store_B) ''q2'' = (True, [])"
    by (simp add: createStore_delete_def store_B_def quotation_q2_def)
  show ?thesis using n a b by simp
qed

end
